theory Spec2Isabelle
  imports Complex_Main
begin

section \<open>The host environment: errors, events, timers, listeners\<close>

text \<open>
  The hooks of \<^verbatim>\<open>block-toolbar/utils.js\<close> run on a single-threaded event loop. The
  repository holds two versions of the file: both have the same debouncer and gestures
  hook; the named one positions the toolbar with a settle timer and a resize listener
  (Strategy B), the other with a frame loop (Strategy A). Line numbers of the debouncer,
  the gestures hook and Strategy B are those of the named file, line numbers of
  Strategy A those of the other.

  Effects are made explicit: a call on \<^verbatim>\<open>null\<close> is the value \<open>Inl TypeError\<close>, the
  pending timeouts of \<^verbatim>\<open>window\<close> are a list of pairs (handle, callback), and the listeners
  of a node are a list of triples (type, callback, capture).
\<close>

datatype error = TypeError

record event =
  propagationStopped :: bool

definition stopPropagation :: "event \<Rightarrow> event" where
  "stopPropagation e = e\<lparr>propagationStopped := True\<rparr>"

text \<open>
  \<^verbatim>\<open>clearTimeout(id)\<close> and \<^verbatim>\<open>cancelAnimationFrame(id)\<close> drop the entry with that handle
  and do nothing when there is none. Handles are the positive integers the browser
  hands out, so \<^verbatim>\<open>if ( handle )\<close> tests that the cell holds a handle other than 0.
\<close>

definition clearTimeout :: "nat \<Rightarrow> (nat \<times> 'c) list \<Rightarrow> (nat \<times> 'c) list" where
  "clearTimeout i ts = filter (\<lambda>p. fst p \<noteq> i) ts"

section \<open>The region reference and its two queries\<close>

text \<open>
  A node answers \<^verbatim>\<open>matches(':hover')\<close> and \<^verbatim>\<open>contains(document.activeElement)\<close>. A
  reference is the object \<^verbatim>\<open>{ current }\<close>; the hook's parameter \<^verbatim>\<open>ref\<close> itself may be
  missing (\<open>None\<close>).
\<close>

record node =
  matchesHover :: bool
  containsActive :: bool

datatype ref = Ref (current: "node option")

text \<open>
  \<^verbatim>\<open>return ref && ref.current.matches( ':hover' )\<close>: the guard tests the reference
  object, not the node it holds. A missing \<^verbatim>\<open>ref\<close> gives the falsy \<^verbatim>\<open>ref\<close> back, read
  here as \<open>False\<close>.
\<close>

fun getIsHovered :: "ref option \<Rightarrow> error + bool" where
  "getIsHovered None = Inr False"
| "getIsHovered (Some (Ref None)) = Inl TypeError"
| "getIsHovered (Some (Ref (Some n))) = Inr (matchesHover n)"

text \<open>\<^verbatim>\<open>return ref && ref.current.contains( document.activeElement )\<close>\<close>

fun isFocusedWithin :: "ref option \<Rightarrow> error + bool" where
  "isFocusedWithin None = Inr False"
| "isFocusedWithin (Some (Ref None)) = Inl TypeError"
| "isFocusedWithin (Some (Ref (Some n))) = Inr (containsActive n)"

text \<open>
  \<^verbatim>\<open>shouldHideMovers\<close>: \<open>isFocused\<close> is the parameter of the render that created the
  closure; the hover query runs when the closure is called.
\<close>

definition shouldHideMovers :: "ref option \<Rightarrow> bool \<Rightarrow> error + bool" where
  "shouldHideMovers r isFocused =
     (case getIsHovered r of
        Inl e \<Rightarrow> Inl e
      | Inr isHovered \<Rightarrow> Inr (\<not> isFocused \<and> \<not> isHovered))"

section \<open>useDebouncedShowMovers\<close>

text \<open>
  The state of one instance: the flag \<^verbatim>\<open>showMovers\<close>, the cell \<^verbatim>\<open>timeoutRef.current\<close>
  (\<open>None\<close> is \<^verbatim>\<open>undefined\<close>), and the timeouts of this instance that are still pending.
  A pending timeout carries what its callback closed over (\<^verbatim>\<open>isFocused\<close>) and its delay.
\<close>

record hideCallback =
  closureIsFocused :: bool
  delay :: nat

record debouncer =
  showMovers :: bool
  timeoutRef :: "nat option"
  timers :: "(nat \<times> hideCallback) list"
  nextTimerId :: nat

definition initialDebouncer :: debouncer where
  "initialDebouncer =
     \<lparr>showMovers = False, timeoutRef = None, timers = [], nextTimerId = 1\<rparr>"

text \<open>
  \<^verbatim>\<open>debouncedShowMovers\<close> (lines 35-51). \<open>closureShowMovers\<close> is the \<^verbatim>\<open>showMovers\<close> of the
  render that created the callback (\<^verbatim>\<open>useCallback( .., [ showMovers ] )\<close>).
\<close>

definition debouncedShowMovers ::
  "bool \<Rightarrow> event option \<Rightarrow> debouncer \<Rightarrow> event option \<times> debouncer" where
  "debouncedShowMovers closureShowMovers ev s =
     (let ev' = map_option stopPropagation ev;
          timeout = timeoutRef s;
          s1 = (case timeout of
                  None \<Rightarrow> s
                | Some i \<Rightarrow> if i \<noteq> 0 then s\<lparr>timers := clearTimeout i (timers s)\<rparr> else s);
          s2 = (if \<not> closureShowMovers then s1\<lparr>showMovers := True\<rparr> else s1)
      in (ev', s2))"

text \<open>
  \<^verbatim>\<open>debouncedHideMovers\<close> (lines 53-66): stops the event, then stores the handle of a new
  timeout in \<^verbatim>\<open>timeoutRef.current\<close>. Nothing is cleared.
\<close>

definition debouncedHideMovers ::
  "nat \<Rightarrow> bool \<Rightarrow> event option \<Rightarrow> debouncer \<Rightarrow> event option \<times> debouncer" where
  "debouncedHideMovers debounceTimeout isFocused ev s =
     (let ev' = map_option stopPropagation ev;
          i = nextTimerId s
      in (ev', s\<lparr>timeoutRef := Some i,
                 timers := timers s @ [(i, \<lparr>closureIsFocused = isFocused, delay = debounceTimeout\<rparr>)],
                 nextTimerId := i + 1\<rparr>))"

text \<open>
  The event loop runs the callback of the pending timeout \<open>i\<close> (lines 59-63); a handle
  that is not pending runs nothing.
\<close>

definition timeoutFires :: "ref option \<Rightarrow> nat \<Rightarrow> debouncer \<Rightarrow> error + debouncer" where
  "timeoutFires r i s =
     (case map_of (timers s) i of
        None \<Rightarrow> Inr s
      | Some cb \<Rightarrow>
          (case shouldHideMovers r (closureIsFocused cb) of
             Inl e \<Rightarrow> Inl e
           | Inr hide \<Rightarrow>
               (let s1 = s\<lparr>timers := clearTimeout i (timers s)\<rparr>
                in Inr (if hide then s1\<lparr>showMovers := False\<rparr> else s1))))"

section \<open>useShowMoversGestures\<close>

text \<open>
  \<^verbatim>\<open>addEventListener\<close> ignores a listener that is already registered with the same type,
  callback and capture flag; \<^verbatim>\<open>removeEventListener\<close> removes the listener with exactly
  that type, callback and capture flag (the flag is false when the argument is left out).
\<close>

definition addEventListener ::
  "string \<times> 'cb \<times> bool \<Rightarrow> (string \<times> 'cb \<times> bool) list \<Rightarrow> (string \<times> 'cb \<times> bool) list" where
  "addEventListener l ls = (if l \<in> set ls then ls else ls @ [l])"

definition removeEventListener ::
  "string \<times> 'cb \<times> bool \<Rightarrow> (string \<times> 'cb \<times> bool) list \<Rightarrow> (string \<times> 'cb \<times> bool) list" where
  "removeEventListener l ls = filter (\<lambda>k. k \<noteq> l) ls"

text \<open>
  The two handlers are closures made by one run of the effect (lines 93-132): the run's
  number makes them distinct functions, and the flag is what the closure holds,
  \<^verbatim>\<open>showMovers\<close> inside its \<^verbatim>\<open>debouncedShowMovers\<close> for \<^verbatim>\<open>handleOnFocus\<close>, and
  \<^verbatim>\<open>isFocused\<close> inside its \<^verbatim>\<open>debouncedHideMovers\<close> for \<^verbatim>\<open>handleOnBlur\<close>.
\<close>

datatype handler = HandleOnFocus nat bool | HandleOnBlur nat bool

record effectClosure =
  closureNode :: bool
  closureOnFocus :: handler
  closureOnBlur :: handler

record gestures =
  isFocused :: bool
  movers :: debouncer
  registerRef :: bool
  listeners :: "(string \<times> handler \<times> bool) list"
  effectRun :: nat
  effect :: "effectClosure option"

definition initialGestures :: gestures where
  "initialGestures =
     \<lparr>isFocused = False, movers = initialDebouncer, registerRef = False,
      listeners = [], effectRun = 0, effect = None\<rparr>"

text \<open>
  The body of the effect: \<^verbatim>\<open>node\<close> is \<^verbatim>\<open>ref.current\<close> at that moment; the handlers are
  registered, capturing, only while \<^verbatim>\<open>registerRef.current\<close> is false.
\<close>

definition effectBody :: "ref \<Rightarrow> gestures \<Rightarrow> gestures" where
  "effectBody r g =
     (let k = effectRun g + 1;
          handleOnFocus = HandleOnFocus k (showMovers (movers g));
          handleOnBlur = HandleOnBlur k (isFocused g);
          hasNode = (current r \<noteq> None);
          g1 = g\<lparr>effectRun := k,
                 effect := Some \<lparr>closureNode = hasNode, closureOnFocus = handleOnFocus,
                                 closureOnBlur = handleOnBlur\<rparr>\<rparr>
      in if hasNode \<and> \<not> registerRef g
         then g1\<lparr>listeners :=
                    addEventListener (''blur'', handleOnBlur, True)
                      (addEventListener (''focus'', handleOnFocus, True) (listeners g)),
                 registerRef := True\<rparr>
         else g1)"

text \<open>
  The function the effect returns (lines 120-125):
  \<^verbatim>\<open>node.removeEventListener( 'focus', handleOnFocus )\<close>, no capture argument.
\<close>

definition effectCleanup :: "gestures \<Rightarrow> gestures" where
  "effectCleanup g =
     (case effect g of
        None \<Rightarrow> g
      | Some c \<Rightarrow>
          if closureNode c
          then g\<lparr>listeners :=
                    removeEventListener (''blur'', closureOnBlur c, False)
                      (removeEventListener (''focus'', closureOnFocus c, False) (listeners g))\<rparr>
          else g)"

definition mount :: "ref \<Rightarrow> gestures" where
  "mount r = effectBody r initialGestures"

definition unmount :: "gestures \<Rightarrow> gestures" where
  "unmount g = effectCleanup g"

text \<open>
  After a render in which \<^verbatim>\<open>showMovers\<close> or \<^verbatim>\<open>isFocused\<close> changed, the two callbacks
  are new functions, so the effect is cleaned up and run again.
\<close>

definition commit :: "ref \<Rightarrow> gestures \<Rightarrow> gestures \<Rightarrow> gestures" where
  "commit r old new =
     (if showMovers (movers new) = showMovers (movers old) \<and> isFocused new = isFocused old
      then new else effectBody r (effectCleanup new))"

definition handleOnFocus :: "bool \<Rightarrow> ref \<Rightarrow> gestures \<Rightarrow> error + gestures" where
  "handleOnFocus closureShowMovers r g =
     (case isFocusedWithin (Some r) of
        Inl e \<Rightarrow> Inl e
      | Inr inside \<Rightarrow>
          Inr (if inside
               then g\<lparr>isFocused := True,
                      movers := snd (debouncedShowMovers closureShowMovers None (movers g))\<rparr>
               else g))"

definition handleOnBlur :: "nat \<Rightarrow> bool \<Rightarrow> ref \<Rightarrow> gestures \<Rightarrow> error + gestures" where
  "handleOnBlur debounceTimeout closureFocused r g =
     (case isFocusedWithin (Some r) of
        Inl e \<Rightarrow> Inl e
      | Inr inside \<Rightarrow>
          Inr (if \<not> inside
               then g\<lparr>isFocused := False,
                      movers := snd (debouncedHideMovers debounceTimeout closureFocused None
                                       (movers g))\<rparr>
               else g))"

text \<open>
  The gestures handed to the view are the callbacks of the latest render:
  \<^verbatim>\<open>onMouseMove: debouncedShowMovers\<close>, \<^verbatim>\<open>onMouseLeave: debouncedHideMovers\<close>.
\<close>

definition onMouseMove :: "event \<Rightarrow> gestures \<Rightarrow> gestures" where
  "onMouseMove ev g =
     g\<lparr>movers := snd (debouncedShowMovers (showMovers (movers g)) (Some ev) (movers g))\<rparr>"

definition onMouseLeave :: "nat \<Rightarrow> event \<Rightarrow> gestures \<Rightarrow> gestures" where
  "onMouseLeave debounceTimeout ev g =
     g\<lparr>movers := snd (debouncedHideMovers debounceTimeout (isFocused g) (Some ev) (movers g))\<rparr>"

fun runListener :: "nat \<Rightarrow> ref \<Rightarrow> handler \<Rightarrow> gestures \<Rightarrow> error + gestures" where
  "runListener dt r (HandleOnFocus k closureShowMovers) g = handleOnFocus closureShowMovers r g"
| "runListener dt r (HandleOnBlur k closureFocused) g = handleOnBlur dt closureFocused r g"

fun dispatchEvent ::
  "nat \<Rightarrow> ref \<Rightarrow> string \<Rightarrow> (string \<times> handler \<times> bool) list \<Rightarrow> gestures \<Rightarrow> error + gestures" where
  "dispatchEvent dt r ty [] g = Inr g"
| "dispatchEvent dt r ty (l # ls) g =
     (if fst l = ty
      then (case runListener dt r (fst (snd l)) g of
              Inl e \<Rightarrow> Inl e
            | Inr g' \<Rightarrow> dispatchEvent dt r ty ls g')
      else dispatchEvent dt r ty ls g)"

text \<open>
  What the event loop can deliver to a mounted instance, each with the region as it is
  at that moment; the render that follows is \<open>commit\<close>. A focus or blur event runs the
  listeners of its type that are registered on the node, in the order of registration.
\<close>

datatype gesture = MouseMove | MouseLeave | FocusEvent | BlurEvent | TimerExpires nat

definition deliver :: "nat \<Rightarrow> ref \<Rightarrow> gesture \<Rightarrow> gestures \<Rightarrow> error + gestures" where
  "deliver dt r ev g =
     (case ev of
        MouseMove \<Rightarrow> Inr (onMouseMove \<lparr>propagationStopped = False\<rparr> g)
      | MouseLeave \<Rightarrow> Inr (onMouseLeave dt \<lparr>propagationStopped = False\<rparr> g)
      | FocusEvent \<Rightarrow> dispatchEvent dt r ''focus'' (listeners g) g
      | BlurEvent \<Rightarrow> dispatchEvent dt r ''blur'' (listeners g) g
      | TimerExpires i \<Rightarrow>
          (case timeoutFires (Some r) i (movers g) of
             Inl e \<Rightarrow> Inl e
           | Inr m \<Rightarrow> Inr (g\<lparr>movers := m\<rparr>)))"

fun run :: "nat \<Rightarrow> (ref \<times> gesture) list \<Rightarrow> gestures \<Rightarrow> error + gestures" where
  "run dt [] g = Inr g"
| "run dt (re # res) g =
     (case deliver dt (fst re) (snd re) g of
        Inl e \<Rightarrow> Inl e
      | Inr g' \<Rightarrow> run dt res (commit (fst re) g g'))"

definition regionIdle :: ref where
  "regionIdle = Ref (Some \<lparr>matchesHover = False, containsActive = False\<rparr>)"

definition regionFocused :: ref where
  "regionFocused = Ref (Some \<lparr>matchesHover = False, containsActive = True\<rparr>)"

definition regionHovered :: ref where
  "regionHovered = Ref (Some \<lparr>matchesHover = True, containsActive = False\<rparr>)"

section \<open>The repositioner: measurements and styles\<close>

text \<open>
  Pixel values are modelled as exact real numbers. A rectangle holds the three fields of
  \<^verbatim>\<open>getBoundingClientRect()\<close> the code reads, as measured when the call is made. The
  anchor is the node of the reference; the styles \<^verbatim>\<open>transform\<close> (the pixels of
  \<^verbatim>\<open>translateX\<close>) and \<^verbatim>\<open>opacity\<close> are written on its parent element.
\<close>

record rect =
  rectX :: real
  rectWidth :: real
  rectLeft :: real

record element =
  boundingRect :: rect
  transform :: "real option"
  opacity :: "real option"

record anchor =
  anchorRect :: rect
  dataTransformOffset :: "real option"
  parentElement :: "element option"

definition moverWidth :: real where
  "moverWidth = 48"

definition buffer :: real where
  "buffer = 8"

definition offsetLeft :: real where
  "offsetLeft = moverWidth + buffer"

text \<open>
  What the browser measures follows the style: \<^verbatim>\<open>getBoundingClientRect()\<close> returns the
  laid-out box moved by the translation in effect. A call that replaces the translation
  of the element it measured leaves that element at the measured x, less the translation
  that was in effect, plus the one now written.
\<close>

definition translationInEffect :: "element \<Rightarrow> real" where
  "translationInEffect e = (case transform e of None \<Rightarrow> 0 | Some T \<Rightarrow> T)"

definition placedX :: "element \<Rightarrow> element \<Rightarrow> real" where
  "placedX before after =
     rectX (boundingRect before) - translationInEffect before + translationInEffect after"

section \<open>Strategy A: the frame loop\<close>

text \<open>
  Lines 173-187 of \<^verbatim>\<open>updatePosition\<close>: the value of \<^verbatim>\<open>nextTranslateX\<close>, \<open>None\<close> while it
  is \<^verbatim>\<open>undefined\<close>.
\<close>

definition nextTranslateX :: "rect \<Rightarrow> rect \<Rightarrow> real option" where
  "nextTranslateX container measured =
     (let containerX = rectX container;
          containerRight = rectWidth container + containerX;
          nodeRight = rectX measured + rectWidth measured;
          totalOffsetLeft = rectX measured - offsetLeft;
          isOverflowLeft = (totalOffsetLeft < containerX);
          isOverflowRight = (nodeRight > containerRight)
      in if isOverflowLeft then Some (containerX - totalOffsetLeft)
         else if isOverflowRight then Some (containerRight - nodeRight - buffer)
         else None)"

text \<open>
  \<^verbatim>\<open>updatePosition\<close> (lines 155-194). \<open>containerNode\<close> is what
  \<^verbatim>\<open>document.querySelector( EDITOR_SELECTOR )\<close> returned, \<open>None\<close> for \<^verbatim>\<open>null\<close>; the second
  argument is \<^verbatim>\<open>ref.current\<close>. The result is the anchor after the call.
\<close>

definition updatePosition :: "rect option \<Rightarrow> anchor option \<Rightarrow> error + anchor option" where
  "updatePosition containerNode refCurrent =
     (case refCurrent of
        None \<Rightarrow> Inr None
      | Some node \<Rightarrow>
          (case containerNode of
             None \<Rightarrow> Inl TypeError
           | Some container \<Rightarrow>
               (case parentElement node of
                  None \<Rightarrow> Inl TypeError
                | Some targetNode \<Rightarrow>
                    if rectLeft (boundingRect targetNode) < 0 then Inr (Some node)
                    else
                      (let moved =
                             (case nextTranslateX container (boundingRect targetNode) of
                                None \<Rightarrow> targetNode
                              | Some t \<Rightarrow>
                                  if t \<noteq> 0 then targetNode\<lparr>transform := Some t\<rparr>
                                  else targetNode)
                       in Inr (Some (node\<lparr>parentElement := Some (moved\<lparr>opacity := Some 1\<rparr>)\<rparr>))))))"

text \<open>\<^verbatim>\<open>useHideOnInitialRender\<close> (lines 200-208).\<close>

definition hideOnInitialRender :: "anchor option \<Rightarrow> error + anchor option" where
  "hideOnInitialRender refCurrent =
     (case refCurrent of
        None \<Rightarrow> Inr None
      | Some node \<Rightarrow>
          (case parentElement node of
             None \<Rightarrow> Inl TypeError
           | Some targetNode \<Rightarrow>
               Inr (Some (node\<lparr>parentElement := Some (targetNode\<lparr>opacity := Some 0\<rparr>)\<rparr>))))"

text \<open>
  \<^verbatim>\<open>useRequestAnimationFrameLoop\<close> (lines 210-233): the cell \<^verbatim>\<open>rafLoopRef.current\<close> and
  the frame callbacks of this loop that the browser still holds.
\<close>

record rafLoop =
  rafLoopRef :: "nat option"
  frames :: "nat list"
  nextFrameId :: nat

text \<open>\<^verbatim>\<open>rafLoopRef.current = requestAnimationFrame( rafCallback )\<close>\<close>

definition requestFrame :: "rafLoop \<Rightarrow> rafLoop" where
  "requestFrame l =
     l\<lparr>rafLoopRef := Some (nextFrameId l),
       frames := frames l @ [nextFrameId l],
       nextFrameId := nextFrameId l + 1\<rparr>"

text \<open>
  \<^verbatim>\<open>rafCallback\<close>: the callback runs on the document \<open>d\<close>; when it throws, the next
  frame is not requested.
\<close>

definition rafCallback ::
  "('d \<Rightarrow> error + 'd) option \<Rightarrow> 'd \<Rightarrow> rafLoop \<Rightarrow> error + 'd \<times> rafLoop" where
  "rafCallback callback d l =
     (case callback of
        None \<Rightarrow> Inr (d, requestFrame l)
      | Some cb \<Rightarrow>
          (case cb d of
             Inl e \<Rightarrow> Inl e
           | Inr d' \<Rightarrow> Inr (d', requestFrame l)))"

definition mountLoop :: "rafLoop \<Rightarrow> rafLoop" where
  "mountLoop l = requestFrame l"

text \<open>\<^verbatim>\<open>cancelAnimationLoop\<close>, the cleanup of the effect.\<close>

definition unmountLoop :: "rafLoop \<Rightarrow> rafLoop" where
  "unmountLoop l =
     (case rafLoopRef l of
        None \<Rightarrow> l
      | Some i \<Rightarrow> if i \<noteq> 0 then l\<lparr>frames := removeAll i (frames l)\<rparr> else l)"

text \<open>
  Between mount and unmount the browser runs pending frame callbacks, and the layout of
  the document changes under the loop.
\<close>

datatype 'd loopEvent = FrameFires nat | Layout 'd

fun loopStep :: "('d \<Rightarrow> error + 'd) option \<Rightarrow> 'd \<times> rafLoop \<Rightarrow> 'd loopEvent \<Rightarrow> 'd \<times> rafLoop" where
  "loopStep callback (d, l) (Layout d') = (d', l)"
| "loopStep callback (d, l) (FrameFires i) =
     (if i \<in> set (frames l)
      then (let l1 = l\<lparr>frames := removeAll i (frames l)\<rparr>
            in case rafCallback callback d l1 of
                 Inl e \<Rightarrow> (d, l1)
               | Inr dl \<Rightarrow> dl)
      else (d, l))"

definition runLoop ::
  "('d \<Rightarrow> error + 'd) option \<Rightarrow> 'd loopEvent list \<Rightarrow> 'd \<times> rafLoop \<Rightarrow> 'd \<times> rafLoop" where
  "runLoop callback evs dl = foldl (loopStep callback) dl evs"

section \<open>Strategy B: the frame callback of reposition\<close>

text \<open>
  The frame callback inside \<^verbatim>\<open>reposition\<close> (utils.js, lines 165-186). \<open>editorNode\<close> is
  what \<^verbatim>\<open>document.querySelector( EDITOR_SELECTOR )\<close> returned. The attribute
  \<^verbatim>\<open>data-transform-offset\<close> holds the number last written; a missing attribute reads
  as 0 (\<^verbatim>\<open>getAttribute( DATA_ATTR ) || 0\<close>).
\<close>

definition repositionFrame :: "rect option \<Rightarrow> anchor option \<Rightarrow> error + anchor option" where
  "repositionFrame editorNode containerNode =
     (case containerNode of
        None \<Rightarrow> Inr None
      | Some node \<Rightarrow>
          (case editorNode of
             None \<Rightarrow> Inl TypeError
           | Some editor \<Rightarrow>
               (let editorX = rectX editor;
                    nodeX = rectX (anchorRect node);
                    currentOffset = (case dataTransformOffset node of None \<Rightarrow> 0 | Some v \<Rightarrow> v);
                    outerOffset = 48;
                    innerOffset = nodeX - editorX;
                    diff = outerOffset - innerOffset + currentOffset;
                    translateX = (if diff > 0 then diff + buffer else 0)
                in case parentElement node of
                     None \<Rightarrow> Inl TypeError
                   | Some targetNode \<Rightarrow>
                       Inr (Some (node\<lparr>parentElement := Some (targetNode\<lparr>transform := Some translateX\<rparr>),
                                       dataTransformOffset := Some translateX\<rparr>)))))"

text \<open>
  The callback of the settle timeout (utils.js, lines 189-196), on the node the effect
  read from the reference: opacity 0, \<^verbatim>\<open>reposition()\<close>, which requests one frame,
  opacity 1. The result is the node and the number of frames requested.
\<close>

definition settleCallback :: "anchor option \<Rightarrow> error + anchor option \<times> nat" where
  "settleCallback containerNode =
     (case containerNode of
        None \<Rightarrow> Inl TypeError
      | Some node \<Rightarrow>
          (case parentElement node of
             None \<Rightarrow> Inl TypeError
           | Some targetNode \<Rightarrow>
               (let hidden = targetNode\<lparr>opacity := Some 0\<rparr>;
                    requested = 1;
                    shown = hidden\<lparr>opacity := Some 1\<rparr>
                in Inr (Some (node\<lparr>parentElement := Some shown\<rparr>), requested))))"

section \<open>Invariant of the frame loop\<close>

text \<open>
  The frame loop holds at most one frame callback, the one whose handle is in
  \<^verbatim>\<open>rafLoopRef.current\<close>.
\<close>

definition loopInv :: "rafLoop \<Rightarrow> bool" where
  "loopInv l =
     (nextFrameId l \<noteq> 0 \<and>
      (case frames l of
         [] \<Rightarrow> True
       | [i] \<Rightarrow> rafLoopRef l = Some i \<and> i \<noteq> 0
       | _ \<Rightarrow> False))"

section \<open>A concrete toolbar\<close>

text \<open>
  An editor container 800 pixels wide at the left edge of the viewport, and an anchor
  whose parent was measured at x = 770 with width 100; a fresh frame loop. Then an
  anchor whose parent is laid out at x = 20, as the first frame measures it, and the same
  parent one frame later, after the frame wrote the translation 36 and the layout moved
  it 10 pixels to the left: laid out at x = 10, measured at x = 46.
\<close>

definition editorRect :: rect where
  "editorRect = \<lparr>rectX = 0, rectWidth = 800, rectLeft = 0\<rparr>"

definition toolbarAnchor :: anchor where
  "toolbarAnchor =
     \<lparr>anchorRect = \<lparr>rectX = 20, rectWidth = 100, rectLeft = 20\<rparr>,
      dataTransformOffset = None,
      parentElement =
        Some \<lparr>boundingRect = \<lparr>rectX = 770, rectWidth = 100, rectLeft = 770\<rparr>,
              transform = None, opacity = Some 0\<rparr>\<rparr>"

definition freshLoop :: rafLoop where
  "freshLoop = \<lparr>rafLoopRef = None, frames = [], nextFrameId = 1\<rparr>"

definition parentFirstFrame :: element where
  "parentFirstFrame =
     \<lparr>boundingRect = \<lparr>rectX = 20, rectWidth = 100, rectLeft = 20\<rparr>,
      transform = None, opacity = Some 0\<rparr>"

definition parentAfterShift :: element where
  "parentAfterShift =
     \<lparr>boundingRect = \<lparr>rectX = 46, rectWidth = 100, rectLeft = 46\<rparr>,
      transform = Some 36, opacity = Some 1\<rparr>"

definition anchorOf :: "element \<Rightarrow> anchor" where
  "anchorOf e =
     \<lparr>anchorRect = boundingRect e, dataTransformOffset = None, parentElement = Some e\<rparr>"

section \<open>Properties of the debouncer\<close>

text \<open>
  What one pending timer does when it fires on a resolved region: it hides exactly when
  its closure's \<^verbatim>\<open>isFocused\<close> is false and the node is not hovered at that moment.
\<close>

lemma timeoutFires_pending:
  assumes "map_of (timers s) i = Some cb"
  shows "timeoutFires (Some (Ref (Some n))) i s =
           Inr (s\<lparr>timers := clearTimeout i (timers s),
                   showMovers := (if \<not> closureIsFocused cb \<and> \<not> matchesHover n then False
                                  else showMovers s)\<rparr>)"
  using assms by (simp add: timeoutFires_def shouldHideMovers_def)

text \<open>
  A hide request adds its timer behind the pending ones and cancels none of them.
\<close>

lemma debouncedHideMovers_keeps_pending:
  "map fst (timers (snd (debouncedHideMovers dt f ev s))) = map fst (timers s) @ [nextTimerId s]"
  by (simp add: debouncedHideMovers_def Let_def)

text \<open>
  C1. The claim: at most one hide timer is pending at any time, because every show and
  every hide request cancels the pending timer first. \<^verbatim>\<open>debouncedHideMovers\<close> cancels
  nothing: two hide requests in a row on a fresh instance leave two timers pending, and
  \<^verbatim>\<open>timeoutRef.current\<close> remembers only the second.
\<close>

theorem debouncedHideMovers_twice_two_timers:
  "map fst (timers (snd (debouncedHideMovers 500 False None
       (snd (debouncedHideMovers 500 False None initialDebouncer))))) = [1, 2]
   \<and> timeoutRef (snd (debouncedHideMovers 500 False None
       (snd (debouncedHideMovers 500 False None initialDebouncer)))) = Some 2"
  by (simp add: debouncedHideMovers_def initialDebouncer_def)

text \<open>
  C3. The claim: with the region reference not yet resolved (\<^verbatim>\<open>ref.current\<close> is
  \<^verbatim>\<open>null\<close>) both queries return false and nothing throws. Both queries call a method on
  \<^verbatim>\<open>null\<close> there, and so does the callback of a hide timer that fires then.
\<close>

theorem queries_unresolved_ref_TypeError:
  "getIsHovered (Some (Ref None)) = Inl TypeError
   \<and> isFocusedWithin (Some (Ref None)) = Inl TypeError
   \<and> timeoutFires (Some (Ref None)) 1
        (snd (debouncedHideMovers 500 False None initialDebouncer)) = Inl TypeError"
  by (simp add: timeoutFires_def shouldHideMovers_def debouncedHideMovers_def
      initialDebouncer_def)

text \<open>
  C4. The claim: a hide timer armed while the controls are visible hides them, when it
  fires, if and only if the region is then neither hovered nor focused within. The
  callback tests the \<^verbatim>\<open>isFocused\<close> of the render that armed it, and a later hide
  request leaves the timer pending. On a mounted instance, first: focus (visible), mouse
  leave (timer 1, armed while focused), blur (timer 2); timer 1 fires while the region is
  neither hovered nor focused, and the controls stay visible. Second: focus, blur
  (timer 1), mouse leave (timer 2), focus again (cancels timer 2 only); timer 1 fires
  while the region is focused within, and the controls are hidden.
\<close>

theorem stale_timer_ignores_region_at_fire_time:
  "map_sum id (\<lambda>g. (showMovers (movers g), isFocused g, map fst (timers (movers g))))
     (run 500
        [(regionFocused, FocusEvent), (regionFocused, MouseLeave), (regionIdle, BlurEvent)]
        (mount regionIdle)) = Inr (True, False, [1, 2])
   \<and> map_sum id (\<lambda>g. (showMovers (movers g), isFocused g, map fst (timers (movers g))))
     (run 500
        [(regionFocused, FocusEvent), (regionFocused, MouseLeave), (regionIdle, BlurEvent),
         (regionIdle, TimerExpires 1)]
        (mount regionIdle)) = Inr (True, False, [2])
   \<and> map_sum id (\<lambda>g. (showMovers (movers g), isFocused g, map fst (timers (movers g))))
     (run 500
        [(regionFocused, FocusEvent), (regionIdle, BlurEvent), (regionIdle, MouseLeave),
         (regionFocused, FocusEvent)]
        (mount regionIdle)) = Inr (True, True, [1])
   \<and> map_sum id (\<lambda>g. (showMovers (movers g), isFocused g, map fst (timers (movers g))))
     (run 500
        [(regionFocused, FocusEvent), (regionIdle, BlurEvent), (regionIdle, MouseLeave),
         (regionFocused, FocusEvent), (regionFocused, TimerExpires 1)]
        (mount regionIdle)) = Inr (False, True, [])"
  by code_simp

text \<open>
  C5. The claim: from Hidden, Visible and Visible-PendingHide a show request leads to
  Visible with any pending hide timer cancelled. First, on a mounted instance: focus,
  blur (timer 1), mouse leave (timer 2); the controls are visible with hide timers
  pending, and the mouse move that follows clears only the handle in
  \<^verbatim>\<open>timeoutRef.current\<close>: timer 1 stays pending. Second, on an instance mounted before
  the region was resolved: the first mouse move shows the controls, and the effect that
  runs after it registers a \<^verbatim>\<open>handleOnFocus\<close> whose \<^verbatim>\<open>debouncedShowMovers\<close> holds
  \<^verbatim>\<open>showMovers\<close> = true; after mouse leave and the expiry of its timer the controls are
  hidden, and the focus event that follows calls that show request, which leaves them
  hidden.
\<close>

theorem debouncedShowMovers_leaves_timer_or_stays_hidden:
  "map_sum id (\<lambda>g. (showMovers (movers g), map fst (timers (movers g)), timeoutRef (movers g)))
     (run 500
        [(regionFocused, FocusEvent), (regionIdle, BlurEvent), (regionIdle, MouseLeave)]
        (mount regionIdle)) = Inr (True, [1, 2], Some 2)
   \<and> map_sum id (\<lambda>g. (showMovers (movers g), map fst (timers (movers g)), timeoutRef (movers g)))
     (run 500
        [(regionFocused, FocusEvent), (regionIdle, BlurEvent), (regionIdle, MouseLeave),
         (regionHovered, MouseMove)]
        (mount regionIdle)) = Inr (True, [1], Some 2)
   \<and> map_sum id (\<lambda>g. (showMovers (movers g), isFocused g, map fst (timers (movers g))))
     (run 500
        [(regionHovered, MouseMove), (regionIdle, MouseLeave), (regionIdle, TimerExpires 1)]
        (mount (Ref None))) = Inr (False, False, [])
   \<and> map_sum id (\<lambda>g. (showMovers (movers g), isFocused g, map fst (timers (movers g))))
     (run 500
        [(regionHovered, MouseMove), (regionIdle, MouseLeave), (regionIdle, TimerExpires 1),
         (regionFocused, FocusEvent)]
        (mount (Ref None))) = Inr (False, True, [])"
  by code_simp

section \<open>Teardown\<close>

lemma loopInv_requestFrame:
  "nextFrameId l \<noteq> 0 \<Longrightarrow> frames l = [] \<Longrightarrow> loopInv (requestFrame l)"
  by (simp add: loopInv_def requestFrame_def)

lemma loopInv_loopStep:
  assumes "loopInv (snd dl)"
  shows "loopInv (snd (loopStep callback dl ev))"
proof (cases dl)
  case (Pair d l)
  with assms have inv: "loopInv l" by simp
  show ?thesis
  proof (cases ev)
    case (Layout d')
    with Pair inv show ?thesis by simp
  next
    case (FrameFires i)
    show ?thesis
    proof (cases "i \<in> set (frames l)")
      case False
      with Pair FrameFires inv show ?thesis by simp
    next
      case True
      define l1 where "l1 = l\<lparr>frames := removeAll i (frames l)\<rparr>"
      from inv True have empty: "frames l1 = []" and next_id: "nextFrameId l1 \<noteq> 0"
        by (auto simp: loopInv_def l1_def split: list.splits)
      then have "loopInv l1" and "loopInv (requestFrame l1)"
        by (simp_all add: loopInv_def requestFrame_def)
      with Pair FrameFires True show ?thesis
        by (auto simp: rafCallback_def l1_def Let_def split: option.splits sum.splits)
    qed
  qed
qed

lemma loopInv_runLoop:
  "loopInv (snd dl) \<Longrightarrow> loopInv (snd (runLoop callback evs dl))"
  unfolding runLoop_def
  by (induction evs arbitrary: dl) (simp_all add: loopInv_loopStep)

lemma unmountLoop_no_frames:
  "loopInv l \<Longrightarrow> frames (unmountLoop l) = []"
  by (auto simp: loopInv_def unmountLoop_def split: list.splits option.splits)

text \<open>
  The sibling hook \<^verbatim>\<open>useRequestAnimationFrameLoop\<close> does clean up: after any run of
  frames and layout changes, unmounting leaves no frame callback of the loop pending.
\<close>

lemma unmountLoop_after_run:
  assumes "nextFrameId l \<noteq> 0" and "frames l = []"
  shows "frames (unmountLoop (snd (runLoop callback evs (d, mountLoop l)))) = []"
proof -
  from assms have "loopInv (snd (d, mountLoop l))"
    by (simp add: mountLoop_def loopInv_requestFrame)
  then have "loopInv (snd (runLoop callback evs (d, mountLoop l)))"
    by (rule loopInv_runLoop)
  then show ?thesis
    by (rule unmountLoop_no_frames)
qed

text \<open>
  C2. The claim: unmounting either mechanism leaves no pending timer and no registered
  listener. The gestures hook is mounted and the mouse leaves (hide timer 1); the hook is
  unmounted. The cleanup (lines 120-125) clears no timeout, and it removes the listeners
  without the capture flag they were registered with: timer 1 is still pending and both
  listeners are still on the node. When timer 1 then fires, the reference holds no node
  any more, and the callback throws.
\<close>

theorem unmount_leaves_timer_and_listeners:
  "map fst (timers (movers (unmount
      (onMouseLeave 500 \<lparr>propagationStopped = False\<rparr> (mount regionIdle))))) = [1]
   \<and> listeners (unmount (onMouseLeave 500 \<lparr>propagationStopped = False\<rparr> (mount regionIdle)))
       = [(''focus'', HandleOnFocus 1 False, True), (''blur'', HandleOnBlur 1 False, True)]
   \<and> timeoutFires (Some (Ref None)) 1
       (movers (unmount (onMouseLeave 500 \<lparr>propagationStopped = False\<rparr> (mount regionIdle))))
       = Inl TypeError"
  by code_simp

section \<open>Properties of the repositioner\<close>

lemma nextTranslateX_nonzero:
  "nextTranslateX container measured = Some t \<Longrightarrow> t \<noteq> 0"
  by (auto simp: nextTranslateX_def buffer_def Let_def split: if_splits)

text \<open>
  With no translation in effect on the element it measures, \<^verbatim>\<open>updatePosition\<close> keeps
  the anchor inside a container that is wide enough for it and its offsets (the left
  offset, mover width plus buffer, and the buffer on the right).
\<close>

lemma updatePosition_untranslated_inside:
  assumes "rectWidth (boundingRect targetNode) + offsetLeft + buffer \<le> rectWidth container"
    and "parentElement node = Some targetNode"
    and "0 \<le> rectLeft (boundingRect targetNode)"
    and "nextTranslateX container (boundingRect targetNode) = Some t"
    and "translationInEffect targetNode = 0"
  shows "updatePosition (Some container) (Some node)
           = Inr (Some (node\<lparr>parentElement :=
                               Some (targetNode\<lparr>transform := Some t, opacity := Some 1\<rparr>)\<rparr>))
    \<and> placedX targetNode (targetNode\<lparr>transform := Some t, opacity := Some 1\<rparr>)
         + rectWidth (boundingRect targetNode)
         \<le> rectX container + rectWidth container - buffer
    \<and> rectX container
         \<le> placedX targetNode (targetNode\<lparr>transform := Some t, opacity := Some 1\<rparr>) - offsetLeft"
proof (intro conjI)
  from assms(4) have "t \<noteq> 0" by (rule nextTranslateX_nonzero)
  with assms(2,3,4)
  show "updatePosition (Some container) (Some node)
          = Inr (Some (node\<lparr>parentElement :=
                              Some (targetNode\<lparr>transform := Some t, opacity := Some 1\<rparr>)\<rparr>))"
    by (simp add: updatePosition_def)
next
  from assms(1,4,5)
  show "placedX targetNode (targetNode\<lparr>transform := Some t, opacity := Some 1\<rparr>)
          + rectWidth (boundingRect targetNode)
          \<le> rectX container + rectWidth container - buffer"
    by (auto simp: nextTranslateX_def placedX_def translationInEffect_def Let_def
        split: if_splits)
next
  from assms(1,4,5)
  show "rectX container
          \<le> placedX targetNode (targetNode\<lparr>transform := Some t, opacity := Some 1\<rparr>) - offsetLeft"
    by (auto simp: nextTranslateX_def placedX_def translationInEffect_def Let_def
        split: if_splits)
qed

text \<open>
  C6. The claim: for any bounding boxes with the container at least as wide as the
  anchor plus the offsets, the translation that \<^verbatim>\<open>updatePosition\<close> applies never leaves
  the anchor's effective left offset left of the container's left edge. The frame loop
  measures the element it translates. The first frame measures x = 20 and writes 36. The
  layout then moves the element 10 pixels to the left, so that the next frame measures
  x = 46 under the translation 36: it writes 10 in place of 36, which leaves the element
  at x = 20 and its effective left offset at -36, left of the container's edge at 0.
\<close>

theorem updatePosition_overwrites_translation_in_effect:
  "rectWidth (boundingRect parentAfterShift) + offsetLeft + buffer \<le> rectWidth editorRect
   \<and> updatePosition (Some editorRect) (Some (anchorOf parentFirstFrame))
       = Inr (Some ((anchorOf parentFirstFrame)
           \<lparr>parentElement := Some (parentFirstFrame\<lparr>transform := Some 36, opacity := Some 1\<rparr>)\<rparr>))
   \<and> updatePosition (Some editorRect) (Some (anchorOf parentAfterShift))
       = Inr (Some ((anchorOf parentAfterShift)
           \<lparr>parentElement := Some (parentAfterShift\<lparr>transform := Some 10\<rparr>)\<rparr>))
   \<and> placedX parentAfterShift (parentAfterShift\<lparr>transform := Some 10\<rparr>) = 20
   \<and> placedX parentAfterShift (parentAfterShift\<lparr>transform := Some 10\<rparr>) - offsetLeft = - 36
   \<and> \<not> rectX editorRect
         \<le> placedX parentAfterShift (parentAfterShift\<lparr>transform := Some 10\<rparr>) - offsetLeft"
  by (simp add: updatePosition_def nextTranslateX_def placedX_def translationInEffect_def
      parentFirstFrame_def parentAfterShift_def anchorOf_def editorRect_def offsetLeft_def
      moverWidth_def buffer_def)

text \<open>
  C7. Container rect x = 0, width = 800, anchor rect x = 770, width = 100: no left
  overflow, right overflow, and the translation written is 800 - 870 - 8 = -78.
\<close>

theorem updatePosition_right_overflow_scenario:
  "nextTranslateX \<lparr>rectX = 0, rectWidth = 800, rectLeft = cl\<rparr>
       \<lparr>rectX = 770, rectWidth = 100, rectLeft = 770\<rparr> = Some (800 - 870 - 8)
   \<and> updatePosition (Some \<lparr>rectX = 0, rectWidth = 800, rectLeft = cl\<rparr>)
       (Some \<lparr>anchorRect = ar, dataTransformOffset = off,
              parentElement =
                Some \<lparr>boundingRect = \<lparr>rectX = 770, rectWidth = 100, rectLeft = 770\<rparr>,
                      transform = tr, opacity = op\<rparr>\<rparr>)
     = Inr (Some \<lparr>anchorRect = ar, dataTransformOffset = off,
              parentElement =
                Some \<lparr>boundingRect = \<lparr>rectX = 770, rectWidth = 100, rectLeft = 770\<rparr>,
                      transform = Some (- 78), opacity = Some 1\<rparr>\<rparr>)"
  by (simp add: updatePosition_def nextTranslateX_def offsetLeft_def moverWidth_def
      buffer_def)

text \<open>
  C8. Anchor rect x = 20, container left edge at 0, whatever the widths: the left offset
  is 48 + 8 = 56, the total offset is 20 - 56 = -36, which is left of 0, and the
  translation written is 0 - (-36) = 36.
\<close>

theorem updatePosition_left_overflow_scenario:
  "offsetLeft = 56 \<and> 20 - offsetLeft = - 36
   \<and> nextTranslateX \<lparr>rectX = 0, rectWidth = cw, rectLeft = cl\<rparr>
       \<lparr>rectX = 20, rectWidth = w, rectLeft = 20\<rparr> = Some 36
   \<and> updatePosition (Some \<lparr>rectX = 0, rectWidth = cw, rectLeft = cl\<rparr>)
       (Some \<lparr>anchorRect = ar, dataTransformOffset = off,
              parentElement =
                Some \<lparr>boundingRect = \<lparr>rectX = 20, rectWidth = w, rectLeft = 20\<rparr>,
                      transform = tr, opacity = op\<rparr>\<rparr>)
     = Inr (Some \<lparr>anchorRect = ar, dataTransformOffset = off,
              parentElement =
                Some \<lparr>boundingRect = \<lparr>rectX = 20, rectWidth = w, rectLeft = 20\<rparr>,
                      transform = Some 36, opacity = Some 1\<rparr>\<rparr>)"
  by (simp add: updatePosition_def nextTranslateX_def offsetLeft_def moverWidth_def
      buffer_def)

text \<open>
  C9, as stated: in both strategies an absent anchor, an absent editor container and a
  negative measured left are early returns that throw nothing and write no style. With
  the anchor mounted and no editor container in the document, both strategies call
  \<^verbatim>\<open>getBoundingClientRect\<close> on \<^verbatim>\<open>null\<close>; Strategy B has no test of the measured left:
  with the anchor at x = -10 it writes a translation; and with no anchor node the
  callback of Strategy B's settle timeout reads \<^verbatim>\<open>parentElement\<close> of \<^verbatim>\<open>null\<close>.
\<close>

theorem absent_container_TypeError:
  "updatePosition None (Some toolbarAnchor) = Inl TypeError
   \<and> repositionFrame None (Some toolbarAnchor) = Inl TypeError
   \<and> repositionFrame (Some editorRect)
       (Some (toolbarAnchor\<lparr>anchorRect := \<lparr>rectX = - 10, rectWidth = 100, rectLeft = - 10\<rparr>\<rparr>))
     = Inr (Some \<lparr>anchorRect = \<lparr>rectX = - 10, rectWidth = 100, rectLeft = - 10\<rparr>,
              dataTransformOffset = Some 66,
              parentElement =
                Some \<lparr>boundingRect = \<lparr>rectX = 770, rectWidth = 100, rectLeft = 770\<rparr>,
                      transform = Some 66, opacity = Some 0\<rparr>\<rparr>)
   \<and> settleCallback None = Inl TypeError"
  by (simp add: updatePosition_def repositionFrame_def settleCallback_def toolbarAnchor_def
      editorRect_def buffer_def)

text \<open>
  C9, amended. In \<^verbatim>\<open>updatePosition\<close> (Strategy A) an absent anchor node and a negative
  measured left, and in the frame callback of \<^verbatim>\<open>reposition\<close> (Strategy B) an absent
  anchor node, are early returns: the call returns normally and the anchor and its parent
  are as before. Nothing is retried: in Strategy A the frame callback goes on to request
  the next frame, which attempts again.
\<close>

theorem not_ready_early_return:
  "updatePosition containerRect None = Inr None
   \<and> (parentElement node = Some targetNode \<and> rectLeft (boundingRect targetNode) < 0 \<longrightarrow>
        updatePosition (Some container) (Some node) = Inr (Some node))
   \<and> repositionFrame editorNode None = Inr None
   \<and> (updatePosition containerRect d = Inr d' \<longrightarrow>
        rafCallback (Some (updatePosition containerRect)) d l = Inr (d', requestFrame l))"
  by (simp add: updatePosition_def repositionFrame_def rafCallback_def)

theorem not_ready_early_return_witness:
  "updatePosition (Some editorRect)
     (Some (toolbarAnchor\<lparr>parentElement :=
        Some \<lparr>boundingRect = \<lparr>rectX = - 5, rectWidth = 100, rectLeft = - 5\<rparr>,
              transform = None, opacity = Some 0\<rparr>\<rparr>))
     = Inr (Some (toolbarAnchor\<lparr>parentElement :=
        Some \<lparr>boundingRect = \<lparr>rectX = - 5, rectWidth = 100, rectLeft = - 5\<rparr>,
              transform = None, opacity = Some 0\<rparr>\<rparr>))
   \<and> rafCallback (Some (updatePosition (Some editorRect))) None freshLoop
     = Inr (None, \<lparr>rafLoopRef = Some 1, frames = [1], nextFrameId = 2\<rparr>)"
  using not_ready_early_return
    [of "Some editorRect"
        "toolbarAnchor\<lparr>parentElement :=
           Some \<lparr>boundingRect = \<lparr>rectX = - 5, rectWidth = 100, rectLeft = - 5\<rparr>,
                 transform = None, opacity = Some 0\<rparr>\<rparr>"
        "\<lparr>boundingRect = \<lparr>rectX = - 5, rectWidth = 100, rectLeft = - 5\<rparr>,
          transform = None, opacity = Some 0\<rparr>"
        editorRect None None None freshLoop]
  by (simp add: toolbarAnchor_def freshLoop_def requestFrame_def)

text \<open>
  C10. When the frame callback of \<^verbatim>\<open>reposition\<close> gets as far as writing (anchor, editor
  container and parent element are there), the translation it writes is diff + buffer if
  diff = 48 - (nodeX - editorX) + currentOffset is positive and 0 otherwise, it is never
  negative, and the same number is stored in \<^verbatim>\<open>data-transform-offset\<close>.
\<close>

theorem repositionFrame_translation:
  assumes "parentElement node = Some targetNode"
    and "diff = 48 - (rectX (anchorRect node) - rectX editor)
                  + (case dataTransformOffset node of None \<Rightarrow> 0 | Some v \<Rightarrow> v)"
    and "n = (if diff > 0 then diff + buffer else 0)"
  shows "repositionFrame (Some editor) (Some node)
           = Inr (Some (node\<lparr>parentElement := Some (targetNode\<lparr>transform := Some n\<rparr>),
                              dataTransformOffset := Some n\<rparr>))
    \<and> 0 \<le> n"
  using assms by (simp add: repositionFrame_def buffer_def Let_def)

theorem repositionFrame_translation_witness:
  "repositionFrame (Some editorRect) (Some toolbarAnchor)
     = Inr (Some (toolbarAnchor\<lparr>parentElement :=
         Some \<lparr>boundingRect = \<lparr>rectX = 770, rectWidth = 100, rectLeft = 770\<rparr>,
               transform = Some 36, opacity = Some 0\<rparr>,
         dataTransformOffset := Some 36\<rparr>))
   \<and> (0 :: real) \<le> 36"
  using repositionFrame_translation
    [of toolbarAnchor
        "\<lparr>boundingRect = \<lparr>rectX = 770, rectWidth = 100, rectLeft = 770\<rparr>,
          transform = None, opacity = Some 0\<rparr>"
        28 editorRect 36]
  by (simp add: toolbarAnchor_def editorRect_def buffer_def)

end
